theory Spec2Isabelle
  imports Complex_Main
begin

section \<open>Data model\<close>

text \<open>
  Document identifiers (Mongo ObjectIds) are modelled as natural numbers; every id string
  handed to a service is taken to be a well-formed ObjectId, so the casts
  \<^verbatim>\<open>new mongoose.Types.ObjectId(s)\<close> and \<^verbatim>\<open>toString()\<close> are the identity.
  Dates are integers (milliseconds since the epoch). JavaScript numbers that carry money
  in display units and percentages are modelled as exact rationals; amounts in cents are
  integers. Database operations are taken to succeed.
\<close>

type_synonym objectId = nat
type_synonym date = int

datatype BudgetTypeEnum = USER | HOUSEHOLD
datatype TransactionTypeEnum = INCOME | EXPENSE
datatype AlertTypeEnum = EMAIL | SMS
datatype AlertStatusEnum = PENDING | SENT | FAILED
datatype HouseholdRoleEnum = OWNER | MEMBER | VIEWER

abbreviation SEVENTY_PERCENT :: nat where "SEVENTY_PERCENT \<equiv> 70"
abbreviation NINETY_PERCENT :: nat where "NINETY_PERCENT \<equiv> 90"
abbreviation HUNDRED_PERCENT :: nat where "HUNDRED_PERCENT \<equiv> 100"

datatype error = NotFoundException string | BadRequestException string

record budget =
  b_userId :: "objectId option"
  b_householdId :: "objectId option"
  b_type :: BudgetTypeEnum
  monthlyLimit :: int
  b_name :: string
  isActive :: bool

record householdMember =
  m_userId :: objectId
  m_role :: HouseholdRoleEnum
  m_joinedAt :: date

record household =
  h_name :: string
  monthlyBudgetLimit :: int
  members :: "householdMember list"

record user =
  u_name :: string
  email :: string
  phoneNumber :: "string option"

text \<open>
  Modelled from the spec: the transaction model (\<^verbatim>\<open>models/transaction.model\<close>) is not
  among the sources. The ledger of the spec holds expense-type transactions with an
  owning identity or group, an amount in minor units, a date and a completion status;
  the record has the fields that the aggregation query of the two services reads.
\<close>

record transaction =
  t_userId :: "objectId option"
  t_householdId :: "objectId option"
  t_type :: TransactionTypeEnum
  t_amount :: int
  t_date :: date
  t_status :: string

record metadata =
  md_currentSpending :: rat
  md_budgetLimit :: rat
  md_percentageUsed :: rat

record alert =
  a_userId :: objectId
  a_budgetId :: objectId
  a_householdId :: "objectId option"
  alertType :: AlertTypeEnum
  threshold :: nat
  status :: AlertStatusEnum
  sentAt :: "date option"
  errorMessage :: "string option"
  a_metadata :: metadata
  createdAt :: date

text \<open>
  A notification is what a send capability receives: the address and the values that the
  message templates of \<^verbatim>\<open>sendBudgetAlertService\<close> interpolate. The rendered text itself
  (which needs \<^verbatim>\<open>formatCurrency\<close>) is not modelled.
\<close>

record notification =
  n_channel :: AlertTypeEnum
  n_to :: string
  n_userName :: string
  n_budgetName :: string
  n_thresholdText :: string
  n_isOverBudget :: bool
  n_metadata :: metadata

text \<open>
  The world: the collections of the database and, as \<open>outbox\<close>, the log of every call of
  a send capability (successful or not), in order.
\<close>

record world =
  budgets :: "objectId \<Rightarrow> budget option"
  households :: "objectId \<Rightarrow> household option"
  users :: "objectId \<Rightarrow> user option"
  transactions :: "transaction list"
  alerts :: "alert list"
  outbox :: "notification list"

text \<open>
  The environment of one service call: the clock reading \<open>now\<close> (the model reads the clock
  once per call), the \<^verbatim>\<open>date-fns\<close> functions \<^verbatim>\<open>startOfMonth\<close> and \<^verbatim>\<open>endOfMonth\<close>, and the
  mailer, whose result \<open>Some msg\<close> stands for a thrown error with message \<open>msg\<close>.
\<close>

record env =
  now :: date
  startOfMonth :: "date \<Rightarrow> date"
  endOfMonth :: "date \<Rightarrow> date"
  sendEmail :: "notification \<Rightarrow> string option"

section \<open>Spend aggregation and status (budget.service.ts)\<close>

text \<open>
  Modelled from the spec: \<^verbatim>\<open>convertToDollarUnit\<close> lives in \<^verbatim>\<open>utils/format-currency\<close>,
  which is not among the sources; the spec carries money in integer minor units
  (50000 minor units are 500.00 display units).
\<close>

definition convertToDollarUnit :: "int \<Rightarrow> rat" where
  "convertToDollarUnit cents = of_int cents / 100"

text \<open>\<^verbatim>\<open>Math.round\<close>: the nearest integer, a tie going up.\<close>

definition Math_round :: "rat \<Rightarrow> int" where
  "Math_round x = \<lfloor>x + 1 / 2\<rfloor>"

text \<open>The \<^verbatim>\<open>$match\<close> stage built in \<^verbatim>\<open>matchQuery\<close>.\<close>

definition matchQuery :: "date \<Rightarrow> date \<Rightarrow> budget \<Rightarrow> transaction \<Rightarrow> bool" where
  "matchQuery monthStart monthEnd b t \<longleftrightarrow>
     t_type t = EXPENSE \<and> monthStart \<le> t_date t \<and> t_date t \<le> monthEnd \<and>
     t_status t = ''COMPLETED'' \<and>
     (case b_type b of
        USER \<Rightarrow> t_userId t = b_userId b
      | HOUSEHOLD \<Rightarrow> t_householdId t = b_householdId b)"

text \<open>
  The aggregation pipeline and \<^verbatim>\<open>aggregationResult[0]?.totalSpent || 0\<close>: the sum of the
  amounts of the matching transactions, 0 when there is none.
\<close>

definition totalSpentInCents :: "env \<Rightarrow> world \<Rightarrow> budget \<Rightarrow> int" where
  "totalSpentInCents e w b =
     sum_list (map t_amount
       (filter (matchQuery (startOfMonth e (now e)) (endOfMonth e (now e)) b) (transactions w)))"

record BudgetStatus =
  totalSpentThisMonth :: rat
  budgetLimit :: rat
  remaining :: rat
  overBudget :: bool
  percentageUsed :: rat

definition getBudgetStatusService :: "env \<Rightarrow> world \<Rightarrow> objectId \<Rightarrow> error + BudgetStatus" where
  "getBudgetStatusService e w budgetId =
     (case budgets w budgetId of
        None \<Rightarrow> Inl (NotFoundException ''Budget not found'')
      | Some b \<Rightarrow>
          if \<not> isActive b then
            Inr \<lparr> totalSpentThisMonth = 0,
                  budgetLimit = convertToDollarUnit (monthlyLimit b),
                  remaining = convertToDollarUnit (monthlyLimit b),
                  overBudget = False,
                  percentageUsed = 0 \<rparr>
          else
            let spent = convertToDollarUnit (totalSpentInCents e w b);
                blimit = convertToDollarUnit (monthlyLimit b);
                rem = blimit - spent;
                over = (spent > blimit);
                pct = (if blimit > 0 then min (spent / blimit * 100) 100 else 0)
            in Inr \<lparr> totalSpentThisMonth = spent,
                     budgetLimit = blimit,
                     remaining = rem,
                     overBudget = over,
                     percentageUsed = of_int (Math_round (pct * 100)) / 100 \<rparr>)"

section \<open>Threshold check and alert dispatch (alert.service.ts)\<close>

text \<open>
  The SMS capability of the source is a placeholder that logs and returns success; it
  never throws.
\<close>

definition sendSMS :: "string \<Rightarrow> notification \<Rightarrow> string option" where
  "sendSMS phone message = None"

definition thresholdText :: "nat \<Rightarrow> string" where
  "thresholdText T =
     (if T = 70 then ''70%'' else if T = 90 then ''90%'' else ''100%'')"

text \<open>
  The two documents handed to \<^verbatim>\<open>AlertModel.create\<close>; \<open>createdAt\<close> is Mongoose's
  timestamp. Creation is taken to succeed: the schema accepts a document whose threshold
  is one of the three values of \<^verbatim>\<open>AlertThresholdEnum\<close>, the only ones the check passes.
\<close>

definition sentAlert ::
  "env \<Rightarrow> objectId \<Rightarrow> objectId \<Rightarrow> objectId option \<Rightarrow> AlertTypeEnum \<Rightarrow> nat \<Rightarrow> metadata \<Rightarrow> alert" where
  "sentAlert e userId budgetId householdId ty T md =
     \<lparr> a_userId = userId, a_budgetId = budgetId, a_householdId = householdId,
       alertType = ty, threshold = T, status = SENT, sentAt = Some (now e),
       errorMessage = None, a_metadata = md, createdAt = now e \<rparr>"

definition failedAlert ::
  "env \<Rightarrow> objectId \<Rightarrow> objectId \<Rightarrow> objectId option \<Rightarrow> AlertTypeEnum \<Rightarrow> nat \<Rightarrow> metadata \<Rightarrow> string
     \<Rightarrow> alert" where
  "failedAlert e userId budgetId householdId ty T md msg =
     \<lparr> a_userId = userId, a_budgetId = budgetId, a_householdId = householdId,
       alertType = ty, threshold = T, status = FAILED, sentAt = None,
       errorMessage = Some msg, a_metadata = md, createdAt = now e \<rparr>"

text \<open>
  One \<^verbatim>\<open>try { send; create SENT; push } catch { create FAILED }\<close> block. \<open>outcome\<close> is the
  result of the send capability on the notification \<open>n\<close>; \<open>acc\<close> is the local array
  \<^verbatim>\<open>alerts\<close> of the source.
\<close>

definition deliver ::
  "env \<Rightarrow> world \<Rightarrow> objectId \<Rightarrow> objectId \<Rightarrow> objectId option \<Rightarrow> nat \<Rightarrow> metadata \<Rightarrow> notification
     \<Rightarrow> string option \<Rightarrow> alert list \<Rightarrow> alert list \<times> world" where
  "deliver e w userId budgetId householdId T md n outcome acc =
     (let w1 = w\<lparr>outbox := outbox w @ [n]\<rparr> in
      case outcome of
        None \<Rightarrow>
          let a = sentAlert e userId budgetId householdId (n_channel n) T md
          in (acc @ [a], w1\<lparr>alerts := alerts w1 @ [a]\<rparr>)
      | Some msg \<Rightarrow>
          (acc, w1\<lparr>alerts := alerts w1 @
                   [failedAlert e userId budgetId householdId (n_channel n) T md msg]\<rparr>))"

text \<open>
  The values interpolated into the e-mail and SMS templates, with the address the message
  goes to. \<open>isOverBudget\<close> is \<^verbatim>\<open>threshold === 100 && metadata.percentageUsed >= 100\<close>.
\<close>

definition notificationFor ::
  "user \<Rightarrow> budget \<Rightarrow> nat \<Rightarrow> metadata \<Rightarrow> AlertTypeEnum \<Rightarrow> string \<Rightarrow> notification" where
  "notificationFor usr b T md ch addr =
     \<lparr> n_channel = ch, n_to = addr, n_userName = u_name usr, n_budgetName = b_name b,
       n_thresholdText = thresholdText T,
       n_isOverBudget = (T = 100 \<and> md_percentageUsed md \<ge> 100),
       n_metadata = md \<rparr>"

text \<open>
  The result is the returned array (\<open>None\<close> for the bare \<^verbatim>\<open>return\<close>) and the new world.
  \<^verbatim>\<open>if (user.email)\<close> and \<^verbatim>\<open>if (user.phoneNumber)\<close> are JavaScript truthiness tests: an
  absent or empty string is false.
\<close>

definition sendBudgetAlertService ::
  "env \<Rightarrow> world \<Rightarrow> objectId \<Rightarrow> objectId \<Rightarrow> objectId option \<Rightarrow> nat \<Rightarrow> metadata
     \<Rightarrow> alert list option \<times> world" where
  "sendBudgetAlertService e w userId budgetId householdId T md =
     (case users w userId of
        None \<Rightarrow> (None, w)
      | Some usr \<Rightarrow>
     (case budgets w budgetId of
        None \<Rightarrow> (None, w)
      | Some b \<Rightarrow>
          let r1 = (if email usr \<noteq> [] then
                      deliver e w userId budgetId householdId T md
                        (notificationFor usr b T md EMAIL (email usr))
                        (sendEmail e (notificationFor usr b T md EMAIL (email usr))) []
                    else ([], w));
              r2 = (case phoneNumber usr of
                      None \<Rightarrow> r1
                    | Some p \<Rightarrow>
                        if p \<noteq> [] then
                          deliver e (snd r1) userId budgetId householdId T md
                            (notificationFor usr b T md SMS p)
                            (sendSMS p (notificationFor usr b T md SMS p)) (fst r1)
                        else r1)
          in (Some (fst r2), snd r2)))"

text \<open>The recipients, resolved from the budget's scope (\<^verbatim>\<open>usersToNotify\<close>).\<close>

definition usersToNotify :: "world \<Rightarrow> budget \<Rightarrow> objectId list" where
  "usersToNotify w b =
     (case b_type b of
        USER \<Rightarrow> (case b_userId b of None \<Rightarrow> [] | Some u \<Rightarrow> [u])
      | HOUSEHOLD \<Rightarrow>
          (case b_householdId b of
             None \<Rightarrow> []
           | Some h \<Rightarrow>
               (case households w h of
                  None \<Rightarrow> []
                | Some hh \<Rightarrow> map m_userId (members hh))))"

text \<open>The deduplication query \<^verbatim>\<open>AlertModel.findOne({budgetId, threshold, status: SENT, createdAt: {$gte: monthStart}})\<close>.\<close>

definition existingAlert :: "world \<Rightarrow> objectId \<Rightarrow> nat \<Rightarrow> date \<Rightarrow> alert option" where
  "existingAlert w budgetId T monthStart =
     find (\<lambda>a. a_budgetId a = budgetId \<and> threshold a = T \<and> status a = SENT \<and>
                monthStart \<le> createdAt a) (alerts w)"

text \<open>The inner loop \<^verbatim>\<open>for (const userId of usersToNotify)\<close>.\<close>

fun notifyUsers ::
  "env \<Rightarrow> world \<Rightarrow> objectId list \<Rightarrow> objectId \<Rightarrow> objectId option \<Rightarrow> nat \<Rightarrow> metadata \<Rightarrow> world" where
  "notifyUsers e w [] budgetId householdId T md = w"
| "notifyUsers e w (u # us) budgetId householdId T md =
     notifyUsers e (snd (sendBudgetAlertService e w u budgetId householdId T md))
       us budgetId householdId T md"

text \<open>
  The outer loop \<^verbatim>\<open>for (const threshold of thresholds)\<close>. The percentage it compares
  with the threshold is the one the check stores in the metadata.
\<close>

fun checkThresholds ::
  "env \<Rightarrow> world \<Rightarrow> nat list \<Rightarrow> objectId \<Rightarrow> budget \<Rightarrow> objectId list \<Rightarrow> metadata \<Rightarrow> world" where
  "checkThresholds e w [] budgetId b us md = w"
| "checkThresholds e w (T # Ts) budgetId b us md =
     checkThresholds e
       (if md_percentageUsed md \<ge> of_nat T then
          (case existingAlert w budgetId T (startOfMonth e (now e)) of
             None \<Rightarrow> notifyUsers e w us budgetId (b_householdId b) T md
           | Some a \<Rightarrow> w)
        else w)
       Ts budgetId b us md"

text \<open>The percentage of the check: not clamped and not rounded.\<close>

definition checkPercentageUsed :: "rat \<Rightarrow> rat \<Rightarrow> rat" where
  "checkPercentageUsed spent blimit = (if blimit > 0 then spent / blimit * 100 else 0)"

definition checkMetadata :: "env \<Rightarrow> world \<Rightarrow> budget \<Rightarrow> metadata" where
  "checkMetadata e w b =
     (let spent = convertToDollarUnit (totalSpentInCents e w b);
          blimit = convertToDollarUnit (monthlyLimit b)
      in \<lparr> md_currentSpending = spent, md_budgetLimit = blimit,
            md_percentageUsed = checkPercentageUsed spent blimit \<rparr>)"

text \<open>
  The service returns nothing; the model returns the new world, and an error where the
  source throws.
\<close>

definition checkBudgetThresholdsService :: "env \<Rightarrow> world \<Rightarrow> objectId \<Rightarrow> error + world" where
  "checkBudgetThresholdsService e w budgetId =
     (case budgets w budgetId of
        None \<Rightarrow> Inr w
      | Some b \<Rightarrow>
          if \<not> isActive b then Inr w
          else Inr (checkThresholds e w
                      [SEVENTY_PERCENT, NINETY_PERCENT, HUNDRED_PERCENT]
                      budgetId b (usersToNotify w b) (checkMetadata e w b)))"

section \<open>Alert ledger query (alert.service.ts)\<close>

record alertFilters =
  f_budgetId :: "objectId option"
  f_status :: "AlertStatusEnum option"
  f_threshold :: "nat option"
  f_limit :: "nat option"

text \<open>
  The Mongo query object. \<^verbatim>\<open>if (filters?.threshold)\<close> is a truthiness test: a threshold
  of 0 adds no condition. (A supplied budget id or status is a non-empty string, which is
  true.)
\<close>

definition alertQuery :: "objectId \<Rightarrow> alertFilters option \<Rightarrow> alert \<Rightarrow> bool" where
  "alertQuery userId filters a \<longleftrightarrow>
     a_userId a = userId \<and>
     (case filters of
        None \<Rightarrow> True
      | Some f \<Rightarrow>
          (case f_budgetId f of None \<Rightarrow> True | Some bid \<Rightarrow> a_budgetId a = bid) \<and>
          (case f_status f of None \<Rightarrow> True | Some st \<Rightarrow> status a = st) \<and>
          (case f_threshold f of
             None \<Rightarrow> True
           | Some T \<Rightarrow> if T \<noteq> 0 then threshold a = T else True))"

text \<open>\<^verbatim>\<open>filters?.limit || 50\<close>: an absent limit and a limit of 0 both give 50.\<close>

definition pageLimit :: "alertFilters option \<Rightarrow> nat" where
  "pageLimit filters =
     (case filters of
        None \<Rightarrow> 50
      | Some f \<Rightarrow>
          (case f_limit f of None \<Rightarrow> 50 | Some l \<Rightarrow> if l \<noteq> 0 then l else 50))"

text \<open>
  A result document: the alert with its two populated references. A reference whose
  document is missing is populated with null (\<open>None\<close>).
\<close>

record populatedAlert =
  pa_alert :: alert
  pa_budget :: "(string \<times> BudgetTypeEnum) option"
  pa_household :: "string option"

definition populate :: "world \<Rightarrow> alert \<Rightarrow> populatedAlert" where
  "populate w a =
     \<lparr> pa_alert = a,
       pa_budget = map_option (\<lambda>b. (b_name b, b_type b)) (budgets w (a_budgetId a)),
       pa_household =
         (case a_householdId a of
            None \<Rightarrow> None
          | Some h \<Rightarrow> map_option h_name (households w h)) \<rparr>"

text \<open>
  \<^verbatim>\<open>find(query).sort({createdAt: -1}).limit(limit)\<close>. The sort is modelled as a stable
  sort on the negated creation time (Mongo leaves the order of ties open).
\<close>

definition getUserAlertsService ::
  "world \<Rightarrow> objectId \<Rightarrow> alertFilters option \<Rightarrow> populatedAlert list" where
  "getUserAlertsService w userId filters =
     map (populate w)
       (take (pageLimit filters)
          (sort_key (\<lambda>a. - createdAt a) (filter (alertQuery userId filters) (alerts w))))"

section \<open>Derived notions used to state the properties\<close>









section \<open>Example data\<close>

text \<open>
  A household budget of 500.00 with two members, Ann (e-mail and phone) and Bob (an
  e-mail address the mailer rejects, no phone), and 620.00 spent this month; budget 2 is
  the same budget switched off. The example calendar has months of 1000 time units.
\<close>

definition ex_env :: env where
  "ex_env = \<lparr> now = 1500, startOfMonth = (\<lambda>t. (t div 1000) * 1000),
     endOfMonth = (\<lambda>t. (t div 1000) * 1000 + 999),
     sendEmail = (\<lambda>n. if n_to n = ''bob@x'' then Some ''SMTP down'' else None) \<rparr>"

definition ex_budget :: budget where
  "ex_budget = \<lparr> b_userId = None, b_householdId = Some 5, b_type = HOUSEHOLD,
     monthlyLimit = 50000, b_name = ''Home'', isActive = True \<rparr>"

definition ex_ann :: user where
  "ex_ann = \<lparr> u_name = ''Ann'', email = ''ann@x'', phoneNumber = Some ''555'' \<rparr>"

definition ex_bob :: user where
  "ex_bob = \<lparr> u_name = ''Bob'', email = ''bob@x'', phoneNumber = None \<rparr>"

definition ex_household :: household where
  "ex_household = \<lparr> h_name = ''H'', monthlyBudgetLimit = 0,
     members = [\<lparr> m_userId = 10, m_role = OWNER, m_joinedAt = 0 \<rparr>,
                \<lparr> m_userId = 11, m_role = MEMBER, m_joinedAt = 0 \<rparr>] \<rparr>"

definition ex_world :: world where
  "ex_world = \<lparr> budgets = [1 \<mapsto> ex_budget, 2 \<mapsto> ex_budget\<lparr>isActive := False\<rparr>],
     households = [5 \<mapsto> ex_household],
     users = [10 \<mapsto> ex_ann, 11 \<mapsto> ex_bob],
     transactions = [\<lparr> t_userId = Some 10, t_householdId = Some 5, t_type = EXPENSE,
        t_amount = 62000, t_date = 1200, t_status = ''COMPLETED'' \<rparr>],
     alerts = [], outbox = [] \<rparr>"

definition ex_metadata :: metadata where
  "ex_metadata = \<lparr> md_currentSpending = 620, md_budgetLimit = 500, md_percentageUsed = 124 \<rparr>"

text \<open>
  An alert of threshold 90 for Ann, created in the current month of the example, once
  as sent and once as failed; Cy, who joins the household later; and a ledger for the
  alert listing.
\<close>

definition ex_alert :: "objectId \<Rightarrow> AlertTypeEnum \<Rightarrow> nat \<Rightarrow> AlertStatusEnum \<Rightarrow> date \<Rightarrow> alert" where
  "ex_alert u ch T st t =
     \<lparr> a_userId = u, a_budgetId = 1, a_householdId = Some 5, alertType = ch, threshold = T,
       status = st, sentAt = (if st = SENT then Some t else None),
       errorMessage = (if st = FAILED then Some ''SMTP down'' else None),
       a_metadata = ex_metadata, createdAt = t \<rparr>"



definition ex_ledger :: "alert list" where
  "ex_ledger = [ex_alert 10 EMAIL 70 SENT 1100, ex_alert 11 EMAIL 70 FAILED 1100,
                ex_alert 10 EMAIL 90 SENT 1300, ex_alert 10 SMS 90 SENT 1200]"

section \<open>The effect of a dispatch and of a check\<close>
























lemma thresholdText_inj:
  "T \<in> {70, 90, 100} \<Longrightarrow> T' \<in> {70, 90, 100} \<Longrightarrow>
   thresholdText T = thresholdText T' \<longleftrightarrow> T = T'"
  by (auto simp: thresholdText_def)








section \<open>The status snapshot\<close>



lemma Math_round_full: "of_int (Math_round (100 * 100)) / 100 = (100 :: rat)"
proof -
  have "\<lfloor>(10000::rat) + 1 / 2\<rfloor> = 10000"
    by (simp add: floor_eq_iff)
  then show ?thesis by (simp add: Math_round_def)
qed



lemma status_active:
  assumes "budgets w budgetId = Some b" and "isActive b"
  shows "getBudgetStatusService e w budgetId =
     Inr \<lparr> totalSpentThisMonth = convertToDollarUnit (totalSpentInCents e w b),
           budgetLimit = convertToDollarUnit (monthlyLimit b),
           remaining = convertToDollarUnit (monthlyLimit b) -
                       convertToDollarUnit (totalSpentInCents e w b),
           overBudget = (convertToDollarUnit (totalSpentInCents e w b) >
                         convertToDollarUnit (monthlyLimit b)),
           percentageUsed =
             of_int (Math_round
               ((if convertToDollarUnit (monthlyLimit b) > 0
                 then min (convertToDollarUnit (totalSpentInCents e w b) /
                           convertToDollarUnit (monthlyLimit b) * 100) 100
                 else 0) * 100)) / 100 \<rparr>"
  using assms by (simp add: getBudgetStatusService_def Let_def)

lemma status_inactive:
  assumes "budgets w budgetId = Some b" and "\<not> isActive b"
  shows "getBudgetStatusService e w budgetId =
     Inr \<lparr> totalSpentThisMonth = 0,
           budgetLimit = convertToDollarUnit (monthlyLimit b),
           remaining = convertToDollarUnit (monthlyLimit b),
           overBudget = False,
           percentageUsed = 0 \<rparr>"
  using assms by (simp add: getBudgetStatusService_def)

lemma convertToDollarUnit_less:
  "convertToDollarUnit x < convertToDollarUnit y \<longleftrightarrow> x < y"
  by (simp add: convertToDollarUnit_def divide_less_cancel)

lemma convertToDollarUnit_nonneg: "0 \<le> convertToDollarUnit x \<longleftrightarrow> 0 \<le> x"
  by (simp add: convertToDollarUnit_def)



text \<open>
  Claim C3. The snapshot's \<open>overBudget\<close> is \<open>spend > limit\<close> and its \<open>remaining\<close> is
  \<open>limit - spend\<close>, on the spend and limit the snapshot reports, with no clamp: when the
  spend exceeds the limit, \<open>overBudget\<close> holds and \<open>remaining\<close> is negative, while
  \<open>percentageUsed\<close> is 100 (for a positive limit). For an active budget the spend is the
  month's aggregate, and \<open>overBudget\<close> is the comparison of the two amounts in cents.
  (An inactive budget reports a spend of 0; its stored limit is not negative.)
\<close>

theorem C3_unclamped:
  assumes "budgets w budgetId = Some b" and "isActive b \<or> 0 \<le> monthlyLimit b"
  shows "\<exists>st. getBudgetStatusService e w budgetId = Inr st \<and>
     overBudget st = (totalSpentThisMonth st > budgetLimit st) \<and>
     remaining st = budgetLimit st - totalSpentThisMonth st \<and>
     budgetLimit st = convertToDollarUnit (monthlyLimit b) \<and>
     (isActive b \<longrightarrow>
        totalSpentThisMonth st = convertToDollarUnit (totalSpentInCents e w b) \<and>
        overBudget st = (totalSpentInCents e w b > monthlyLimit b)) \<and>
     (totalSpentThisMonth st > budgetLimit st \<longrightarrow>
        overBudget st \<and> remaining st < 0 \<and>
        (0 < budgetLimit st \<longrightarrow> percentageUsed st = 100))"
proof (cases "isActive b")
  case False
  with assms(2) have "0 \<le> convertToDollarUnit (monthlyLimit b)"
    by (simp add: convertToDollarUnit_nonneg)
  then show ?thesis
    using False by (simp add: status_inactive [OF assms(1) False])
next
  case True
  let ?s = "convertToDollarUnit (totalSpentInCents e w b)"
  let ?l = "convertToDollarUnit (monthlyLimit b)"
  have full: "of_int (Math_round (min (?s / ?l * 100) 100 * 100)) / (100::rat) = 100"
    if "0 < ?l" and "?l < ?s"
  proof -
    from that have "100 \<le> ?s / ?l * 100" by (simp add: pos_le_divide_eq)
    then have "min (?s / ?l * 100) 100 = 100" by (rule min_absorb2)
    then show ?thesis by (simp only: Math_round_full)
  qed
  show ?thesis
    using True full
    by (simp add: status_active [OF assms(1) True] convertToDollarUnit_less)
qed

text \<open>
  The example budget: 620.00 spent of 500.00 gives \<open>overBudget\<close>, \<open>remaining = -120\<close> and
  \<open>percentageUsed = 100\<close>.
\<close>

theorem C3_unclamped_witness:
  "budgets ex_world 1 = Some ex_budget \<and> isActive ex_budget \<and>
   (\<exists>st. getBudgetStatusService ex_env ex_world 1 = Inr st \<and>
      totalSpentThisMonth st = 620 \<and> budgetLimit st = 500 \<and>
      totalSpentThisMonth st > budgetLimit st \<and> 0 < budgetLimit st \<and>
      overBudget st \<and> remaining st = - 120 \<and> percentageUsed st = 100)"
proof -
  have h: "budgets ex_world 1 = Some ex_budget" by (simp add: ex_world_def)
  have s: "convertToDollarUnit (totalSpentInCents ex_env ex_world ex_budget) = 620"
    by (simp add: convertToDollarUnit_def totalSpentInCents_def matchQuery_def ex_env_def
          ex_world_def ex_budget_def)
  have l: "convertToDollarUnit (monthlyLimit ex_budget) = 500"
    by (simp add: convertToDollarUnit_def ex_budget_def)
  have a: "isActive ex_budget" by (simp add: ex_budget_def)
  from C3_unclamped [OF h, of ex_env] show ?thesis
    using h a by (auto simp: s l)
qed

text \<open>
  Claim C7. For a budget whose active flag is false, \<open>getBudgetStatusService\<close> returns
  \<open>{totalSpentThisMonth: 0, budgetLimit: limit, remaining: limit, overBudget: false,
  percentageUsed: 0}\<close> whatever the transaction ledger \<open>ts\<close> holds, and
  \<open>checkBudgetThresholdsService\<close> leaves the world as it was: nothing is sent and no alert
  row is created.
\<close>

theorem C7_inactive:
  assumes "budgets w budgetId = Some b" and "\<not> isActive b"
  shows "getBudgetStatusService e (w\<lparr>transactions := ts\<rparr>) budgetId =
           Inr \<lparr> totalSpentThisMonth = 0,
                 budgetLimit = convertToDollarUnit (monthlyLimit b),
                 remaining = convertToDollarUnit (monthlyLimit b),
                 overBudget = False,
                 percentageUsed = 0 \<rparr> \<and>
     checkBudgetThresholdsService e w budgetId = Inr w"
  using assms by (simp add: getBudgetStatusService_def checkBudgetThresholdsService_def)

text \<open>
  Budget 2 of the example world is inactive, and the ledger is not empty.
\<close>

theorem C7_inactive_witness:
  "budgets ex_world 2 = Some (ex_budget\<lparr>isActive := False\<rparr>) \<and>
   \<not> isActive (ex_budget\<lparr>isActive := False\<rparr>) \<and>
   transactions ex_world \<noteq> [] \<and>
   getBudgetStatusService ex_env ex_world 2 =
     Inr \<lparr> totalSpentThisMonth = 0, budgetLimit = 500, remaining = 500,
           overBudget = False, percentageUsed = 0 \<rparr> \<and>
   checkBudgetThresholdsService ex_env ex_world 2 = Inr ex_world"
proof -
  have h: "budgets ex_world 2 = Some (ex_budget\<lparr>isActive := False\<rparr>)"
    by (simp add: ex_world_def)
  have i: "\<not> isActive (ex_budget\<lparr>isActive := False\<rparr>)" by simp
  have l: "convertToDollarUnit (monthlyLimit ex_budget) = 500"
    by (simp add: convertToDollarUnit_def ex_budget_def)
  have t: "transactions ex_world \<noteq> []" by (simp add: ex_world_def)
  from C7_inactive [OF h i, of ex_env "transactions ex_world"] h i t show ?thesis
    by (simp add: l)
qed

text \<open>
  Claim C6 says that every core operation signals NotFound for a budget that does not
  exist, the threshold check included. The check does not: for the absent budget 3 it
  returns normally and leaves the world as it was.
\<close>

theorem C6_counterexample:
  "budgets ex_world 3 = None \<and>
   checkBudgetThresholdsService ex_env ex_world 3 = Inr ex_world \<and>
   checkBudgetThresholdsService ex_env ex_world 3 \<noteq> Inl (NotFoundException ''Budget not found'')"
proof -
  have h: "budgets ex_world 3 = None" by (simp add: ex_world_def)
  then show ?thesis by (simp add: checkBudgetThresholdsService_def)
qed

text \<open>
  Claim C6, amended. For a budget id that is not in the store, \<open>getBudgetStatusService\<close>
  raises NotFound (``Budget not found''), and \<open>checkBudgetThresholdsService\<close> returns
  normally without any effect.
\<close>

theorem C6_absent_budget:
  assumes "budgets w budgetId = None"
  shows "getBudgetStatusService e w budgetId = Inl (NotFoundException ''Budget not found'') \<and>
     checkBudgetThresholdsService e w budgetId = Inr w"
  using assms by (simp add: getBudgetStatusService_def checkBudgetThresholdsService_def)

text \<open>
  Budget 3 does not exist in the example world.
\<close>

theorem C6_absent_budget_witness:
  "budgets ex_world 3 = None \<and>
   getBudgetStatusService ex_env ex_world 3 = Inl (NotFoundException ''Budget not found'') \<and>
   checkBudgetThresholdsService ex_env ex_world 3 = Inr ex_world"
proof -
  have h: "budgets ex_world 3 = None" by (simp add: ex_world_def)
  from C6_absent_budget [OF h] h show ?thesis by simp
qed

section \<open>The dispatcher\<close>



text \<open>
  Claim C10. When the recipient's user record or the budget record is missing,
  \<open>sendBudgetAlertService\<close> returns (nothing) and leaves the world as it was: nothing is
  sent, no alert row is created, and no error is raised.
\<close>

theorem C10_silent_skip:
  assumes "users w userId = None \<or> budgets w budgetId = None"
  shows "sendBudgetAlertService e w userId budgetId householdId T md = (None, w)"
  using assms by (auto simp: sendBudgetAlertService_def split: option.split)

text \<open>
  User 99 and budget 3 do not exist in the example world.
\<close>

theorem C10_silent_skip_witness:
  "users ex_world 99 = None \<and> budgets ex_world 1 = Some ex_budget \<and>
   sendBudgetAlertService ex_env ex_world 99 1 (Some 5) 70 ex_metadata = (None, ex_world) \<and>
   users ex_world 10 = Some ex_ann \<and> budgets ex_world 3 = None \<and>
   sendBudgetAlertService ex_env ex_world 10 3 (Some 5) 70 ex_metadata = (None, ex_world)"
proof -
  have u: "users ex_world 99 = None" and b: "budgets ex_world 3 = None"
    and u': "users ex_world 10 = Some ex_ann" and b': "budgets ex_world 1 = Some ex_budget"
    by (simp_all add: ex_world_def)
  from u have 1: "users ex_world 99 = None \<or> budgets ex_world 1 = None" by simp
  from b have 2: "users ex_world 10 = None \<or> budgets ex_world 3 = None" by simp
  from C10_silent_skip [OF 1] C10_silent_skip [OF 2] u b u' b' show ?thesis by simp
qed

section \<open>The threshold check\<close>







section \<open>The alert listing\<close>

lemma query_sound:
  assumes "alertQuery userId filters a"
  shows "a_userId a = userId"
    and "filters = Some f \<Longrightarrow> f_budgetId f = Some bid \<Longrightarrow> a_budgetId a = bid"
    and "filters = Some f \<Longrightarrow> f_status f = Some st \<Longrightarrow> status a = st"
    and "filters = Some f \<Longrightarrow> f_threshold f = Some T \<Longrightarrow> T \<noteq> 0 \<Longrightarrow> threshold a = T"
  using assms by (auto simp: alertQuery_def)

lemma pageLimit_cases:
  "filters = Some f \<Longrightarrow> f_limit f = Some l \<Longrightarrow> l \<noteq> 0 \<Longrightarrow> pageLimit filters = l"
  "filters = None \<Longrightarrow> pageLimit filters = 50"
  "filters = Some f \<Longrightarrow> f_limit f = None \<or> f_limit f = Some 0 \<Longrightarrow> pageLimit filters = 50"
  by (auto simp: pageLimit_def)

lemma listing_alerts:
  "map pa_alert (getUserAlertsService w userId filters) =
     take (pageLimit filters)
       (sort_key (\<lambda>a. - createdAt a) (filter (alertQuery userId filters) (alerts w)))"
  by (simp add: getUserAlertsService_def populate_def comp_def)

lemma listing_set:
  "a \<in> set (map pa_alert (getUserAlertsService w userId filters)) \<Longrightarrow>
   a \<in> set (alerts w) \<and> alertQuery userId filters a"
  unfolding listing_alerts by (auto dest: in_set_takeD)

lemma listing_sorted:
  "sorted_wrt (\<lambda>x y. createdAt x \<ge> createdAt y)
     (map pa_alert (getUserAlertsService w userId filters))"
proof -
  let ?xs = "sort_key (\<lambda>a. - createdAt a) (filter (alertQuery userId filters) (alerts w))"
  have "sorted (map (\<lambda>a. - createdAt a) ?xs)" by (rule sorted_sort_key)
  then have "sorted_wrt (\<lambda>x y. createdAt x \<ge> createdAt y) ?xs"
    by (simp add: sorted_map)
  then show ?thesis
    unfolding listing_alerts by (rule sorted_wrt_take)
qed

lemma listing_length:
  "length (map pa_alert (getUserAlertsService w userId filters)) \<le> pageLimit filters"
  unfolding listing_alerts by simp

text \<open>
  Claim C8 says that the listing returns at most \<open>limit\<close> results and only alerts that
  satisfy every supplied filter. With a limit of 0 and a threshold filter of 0, both
  supplied, the listing returns three alerts, of thresholds 90, 90 and 70.
\<close>

theorem C8_counterexample:
  "map (threshold \<circ> pa_alert)
     (getUserAlertsService (ex_world\<lparr>alerts := ex_ledger\<rparr>) 10
        (Some \<lparr> f_budgetId = None, f_status = None, f_threshold = Some 0, f_limit = Some 0 \<rparr>)) =
     [90, 90, 70] \<and>
   \<not> length (getUserAlertsService (ex_world\<lparr>alerts := ex_ledger\<rparr>) 10
        (Some \<lparr> f_budgetId = None, f_status = None, f_threshold = Some 0, f_limit = Some 0 \<rparr>)) \<le> 0"
  by (simp add: getUserAlertsService_def populate_def pageLimit_def alertQuery_def ex_ledger_def
        ex_alert_def)

text \<open>
  Claim C8, amended. The alerts that \<open>getUserAlertsService\<close> returns are alerts of the
  ledger that belong to the recipient and satisfy the budget filter and the status
  filter when supplied, and the threshold filter when supplied and not 0; they are
  ordered by descending creation time; there are at most \<open>limit\<close> of them when a limit
  other than 0 is supplied, and at most 50 when no limit, or a limit of 0, is supplied.
\<close>

theorem C8_listing:
  fixes w userId filters
  defines "res \<equiv> map pa_alert (getUserAlertsService w userId filters)"
  shows "(\<forall>a \<in> set res. a \<in> set (alerts w) \<and> a_userId a = userId) \<and>
     (\<forall>f bid. filters = Some f \<and> f_budgetId f = Some bid \<longrightarrow>
        (\<forall>a \<in> set res. a_budgetId a = bid)) \<and>
     (\<forall>f st. filters = Some f \<and> f_status f = Some st \<longrightarrow>
        (\<forall>a \<in> set res. status a = st)) \<and>
     (\<forall>f T. filters = Some f \<and> f_threshold f = Some T \<and> T \<noteq> 0 \<longrightarrow>
        (\<forall>a \<in> set res. threshold a = T)) \<and>
     sorted_wrt (\<lambda>x y. createdAt x \<ge> createdAt y) res \<and>
     (\<forall>f l. filters = Some f \<and> f_limit f = Some l \<and> l \<noteq> 0 \<longrightarrow> length res \<le> l) \<and>
     ((filters = None \<or> (\<exists>f. filters = Some f \<and> (f_limit f = None \<or> f_limit f = Some 0))) \<longrightarrow>
        length res \<le> 50)"
proof -
  have s: "\<forall>a \<in> set res. a \<in> set (alerts w) \<and> alertQuery userId filters a"
    unfolding res_def by (blast dest: listing_set)
  have l: "length res \<le> pageLimit filters"
    unfolding res_def by (rule listing_length)
  have "\<forall>a \<in> set res. a \<in> set (alerts w) \<and> a_userId a = userId"
    using s by (blast dest: query_sound(1))
  moreover have "\<forall>f bid. filters = Some f \<and> f_budgetId f = Some bid \<longrightarrow>
        (\<forall>a \<in> set res. a_budgetId a = bid)"
    using s by (blast dest: query_sound(2))
  moreover have "\<forall>f st. filters = Some f \<and> f_status f = Some st \<longrightarrow>
        (\<forall>a \<in> set res. status a = st)"
    using s by (blast dest: query_sound(3))
  moreover have "\<forall>f T. filters = Some f \<and> f_threshold f = Some T \<and> T \<noteq> 0 \<longrightarrow>
        (\<forall>a \<in> set res. threshold a = T)"
    using s by (blast dest: query_sound(4))
  moreover have "sorted_wrt (\<lambda>x y. createdAt x \<ge> createdAt y) res"
    unfolding res_def by (rule listing_sorted)
  moreover have "\<forall>f l. filters = Some f \<and> f_limit f = Some l \<and> l \<noteq> 0 \<longrightarrow> length res \<le> l"
    using l by (auto simp: pageLimit_cases(1))
  moreover have "(filters = None \<or>
      (\<exists>f. filters = Some f \<and> (f_limit f = None \<or> f_limit f = Some 0))) \<longrightarrow> length res \<le> 50"
    using l by (auto simp: pageLimit_def)
  ultimately show ?thesis by blast
qed

text \<open>
  Ann's alerts in the example ledger, with all four filters and with none.
\<close>

theorem C8_listing_witness:
  "map pa_alert (getUserAlertsService (ex_world\<lparr>alerts := ex_ledger\<rparr>) 10
      (Some \<lparr> f_budgetId = Some 1, f_status = Some SENT, f_threshold = Some 90,
              f_limit = Some 1 \<rparr>)) = [ex_alert 10 EMAIL 90 SENT 1300] \<and>
   length (map pa_alert (getUserAlertsService (ex_world\<lparr>alerts := ex_ledger\<rparr>) 10
      (Some \<lparr> f_budgetId = Some 1, f_status = Some SENT, f_threshold = Some 90,
              f_limit = Some 1 \<rparr>))) \<le> 1 \<and>
   list_all (\<lambda>a. a \<in> set ex_ledger \<and> a_userId a = 10 \<and> a_budgetId a = 1 \<and> status a = SENT \<and>
                  threshold a = 90)
     (map pa_alert (getUserAlertsService (ex_world\<lparr>alerts := ex_ledger\<rparr>) 10
        (Some \<lparr> f_budgetId = Some 1, f_status = Some SENT, f_threshold = Some 90,
                f_limit = Some 1 \<rparr>))) \<and>
   map pa_alert (getUserAlertsService (ex_world\<lparr>alerts := ex_ledger\<rparr>) 10 None) =
     [ex_alert 10 EMAIL 90 SENT 1300, ex_alert 10 SMS 90 SENT 1200,
      ex_alert 10 EMAIL 70 SENT 1100] \<and>
   sorted_wrt (\<lambda>x y. createdAt x \<ge> createdAt y)
     (map pa_alert (getUserAlertsService (ex_world\<lparr>alerts := ex_ledger\<rparr>) 10 None)) \<and>
   length (map pa_alert (getUserAlertsService (ex_world\<lparr>alerts := ex_ledger\<rparr>) 10 None)) \<le> 50"
proof -
  let ?w = "ex_world\<lparr>alerts := ex_ledger\<rparr>"
  let ?f = "\<lparr> f_budgetId = Some 1, f_status = Some SENT, f_threshold = Some 90,
              f_limit = Some 1 \<rparr>"
  note A = C8_listing [of ?w 10 "Some ?f"]
  note B = C8_listing [of ?w 10 None]
  have 1: "map pa_alert (getUserAlertsService ?w 10 (Some ?f)) = [ex_alert 10 EMAIL 90 SENT 1300]"
    by (simp add: getUserAlertsService_def populate_def pageLimit_def alertQuery_def
          ex_ledger_def ex_alert_def)
  have 2: "map pa_alert (getUserAlertsService ?w 10 None) =
     [ex_alert 10 EMAIL 90 SENT 1300, ex_alert 10 SMS 90 SENT 1200,
      ex_alert 10 EMAIL 70 SENT 1100]"
    by (simp add: getUserAlertsService_def populate_def pageLimit_def alertQuery_def
          ex_ledger_def ex_alert_def)
  have 3: "length (map pa_alert (getUserAlertsService ?w 10 (Some ?f))) \<le> 1"
    using A by simp
  have 4: "list_all (\<lambda>a. a \<in> set ex_ledger \<and> a_userId a = 10 \<and> a_budgetId a = 1 \<and>
                  status a = SENT \<and> threshold a = 90)
     (map pa_alert (getUserAlertsService ?w 10 (Some ?f)))"
    using A unfolding list_all_iff by simp
  have 5: "sorted_wrt (\<lambda>x y. createdAt x \<ge> createdAt y)
     (map pa_alert (getUserAlertsService ?w 10 None))"
    using B by blast
  have 6: "length (map pa_alert (getUserAlertsService ?w 10 None)) \<le> 50"
    using B by simp
  from 1 2 3 4 5 6 show ?thesis by blast
qed

end
